theory Spec2Isabelle
  imports Complex_Main
begin

section \<open>Time values of JavaScript dates\<close>

text \<open>
  A \<^verbatim>\<open>Date\<close> holds a time value: the milliseconds since the epoch, an integer of
  absolute value at most 8.64e15, or NaN (an invalid date). A valid time value is an
  \<^typ>\<open>int\<close>; a possibly invalid one is an \<^typ>\<open>int option\<close>, \<open>None\<close> being NaN.
  The functions below are the abstract operations of ECMA-262 (section "Date Objects")
  that \<^verbatim>\<open>getDate\<close>, \<^verbatim>\<open>setDate\<close> and \<^verbatim>\<open>toISOString\<close> are made of. All numbers that
  occur are integers below \<open>2^53\<close> whenever the result is a valid date, so the
  double-precision arithmetic of the language is exact there.

  The local time zone of the process is a fixed offset \<open>tza\<close> in milliseconds
  (0 for a server running in UTC); a zone with daylight-saving changes is not modelled.
\<close>

definition msPerDay :: int where
  "msPerDay = 1000 * 60 * 60 * 24"

definition Day :: "int \<Rightarrow> int" where
  "Day t = t div msPerDay"

definition TimeWithinDay :: "int \<Rightarrow> int" where
  "TimeWithinDay t = t mod msPerDay"

definition DaysInYear :: "int \<Rightarrow> int" where
  "DaysInYear y =
     (if y mod 4 \<noteq> 0 then 365
      else if y mod 100 \<noteq> 0 then 366
      else if y mod 400 \<noteq> 0 then 365
      else 366)"

definition DayFromYear :: "int \<Rightarrow> int" where
  "DayFromYear y =
     365 * (y - 1970) + (y - 1969) div 4 - (y - 1901) div 100 + (y - 1601) div 400"

definition TimeFromYear :: "int \<Rightarrow> int" where
  "TimeFromYear y = msPerDay * DayFromYear y"

text \<open>
  ECMA-262 defines \<open>YearFromTime t\<close> as the largest \<open>y\<close> with \<open>TimeFromYear y \<le> t\<close>.
  It is computed here from the day number counted from 1 January 1601, the start of a
  400-year cycle of 146097 days; \<open>YearFromTime_largest\<close> proves that this is that year.
\<close>

definition YearFromTime :: "int \<Rightarrow> int" where
  "YearFromTime t =
     (let n = Day t - DayFromYear 1601;
          n400 = n div 146097;
          r400 = n mod 146097;
          n100 = min (r400 div 36524) 3;
          r100 = r400 - n100 * 36524;
          n4 = r100 div 1461;
          r4 = r100 mod 1461;
          n1 = min (r4 div 365) 3
      in 1601 + 400 * n400 + 100 * n100 + 4 * n4 + n1)"

definition InLeapYear :: "int \<Rightarrow> int" where
  "InLeapYear t = (if DaysInYear (YearFromTime t) = 366 then 1 else 0)"

definition DayWithinYear :: "int \<Rightarrow> int" where
  "DayWithinYear t = Day t - DayFromYear (YearFromTime t)"

definition MonthFromTime :: "int \<Rightarrow> int" where
  "MonthFromTime t =
     (let d = DayWithinYear t; l = InLeapYear t in
      if d < 31 then 0
      else if d < 59 + l then 1
      else if d < 90 + l then 2
      else if d < 120 + l then 3
      else if d < 151 + l then 4
      else if d < 181 + l then 5
      else if d < 212 + l then 6
      else if d < 243 + l then 7
      else if d < 273 + l then 8
      else if d < 304 + l then 9
      else if d < 334 + l then 10
      else 11)"

text \<open>The day within the year on which month \<open>m\<close> (0 to 11) starts; \<open>l\<close> is 1 in a leap year.\<close>

definition DaysBeforeMonth :: "int \<Rightarrow> int \<Rightarrow> int" where
  "DaysBeforeMonth l m =
     (if m = 0 then 0
      else if m = 1 then 31
      else if m = 2 then 59 + l
      else if m = 3 then 90 + l
      else if m = 4 then 120 + l
      else if m = 5 then 151 + l
      else if m = 6 then 181 + l
      else if m = 7 then 212 + l
      else if m = 8 then 243 + l
      else if m = 9 then 273 + l
      else if m = 10 then 304 + l
      else 334 + l)"

text \<open>
  ECMA-262 gives \<open>DateFromTime\<close> by the same twelve cases: \<open>DayWithinYear t + 1\<close> in
  January, \<open>DayWithinYear t - 30\<close> in February, \<open>DayWithinYear t - 58 - InLeapYear t\<close>
  in March, and so on.
\<close>

definition DateFromTime :: "int \<Rightarrow> int" where
  "DateFromTime t =
     DayWithinYear t - DaysBeforeMonth (InLeapYear t) (MonthFromTime t) + 1"

text \<open>
  \<open>MakeDay year month date\<close>: the day number of the first of the month
  (\<open>year + month div 12\<close>, \<open>month mod 12\<close>), plus \<open>date - 1\<close>.
\<close>

definition MakeDay :: "int \<Rightarrow> int \<Rightarrow> int \<Rightarrow> int" where
  "MakeDay year month date =
     (let ym = year + month div 12;
          mn = month mod 12;
          l = (if DaysInYear ym = 366 then 1 else 0)
      in DayFromYear ym + DaysBeforeMonth l mn + date - 1)"

definition MakeDate :: "int \<Rightarrow> int \<Rightarrow> int" where
  "MakeDate day time = day * msPerDay + time"

definition TimeClip :: "int \<Rightarrow> int option" where
  "TimeClip time = (if \<bar>time\<bar> > 8640000000000000 then None else Some time)"

definition LocalTime :: "int \<Rightarrow> int \<Rightarrow> int" where
  "LocalTime tza t = t + tza"

definition UTC :: "int \<Rightarrow> int \<Rightarrow> int" where
  "UTC tza t = t - tza"

text \<open>\<^verbatim>\<open>Date.prototype.getDate\<close> and \<^verbatim>\<open>Date.prototype.setDate\<close> on a valid date.\<close>

definition getDate :: "int \<Rightarrow> int \<Rightarrow> int" where
  "getDate tza t = DateFromTime (LocalTime tza t)"

definition setDate :: "int \<Rightarrow> int \<Rightarrow> int \<Rightarrow> int option" where
  "setDate tza t dt =
     (let lt = LocalTime tza t;
          newDate = MakeDate (MakeDay (YearFromTime lt) (MonthFromTime lt) dt) (TimeWithinDay lt)
      in TimeClip (UTC tza newDate))"

subsection \<open>The calendar date of \<^verbatim>\<open>toISOString\<close>\<close>

datatype js_error = RangeError | SyntaxError

definition digit :: "int \<Rightarrow> nat \<Rightarrow> char" where
  "digit k i = ''0123456789'' ! nat ((k div 10 ^ i) mod 10)"

definition pad2 :: "int \<Rightarrow> string" where
  "pad2 k = [digit k 1, digit k 0]"

definition isoYear :: "int \<Rightarrow> string" where
  "isoYear y =
     (if 0 \<le> y \<and> y \<le> 9999 then [digit y 3, digit y 2, digit y 1, digit y 0]
      else (if y < 0 then CHR ''-'' else CHR ''+'')
           # [digit \<bar>y\<bar> 5, digit \<bar>y\<bar> 4, digit \<bar>y\<bar> 3, digit \<bar>y\<bar> 2, digit \<bar>y\<bar> 1, digit \<bar>y\<bar> 0])"

text \<open>
  \<^verbatim>\<open>d.toISOString().split('T')[0]\<close>: the UTC calendar date of a valid date, and a
  \<^verbatim>\<open>RangeError\<close> on an invalid one.
\<close>

definition isoDate :: "int option \<Rightarrow> js_error + string" where
  "isoDate d =
     (case d of
        None \<Rightarrow> Inl RangeError
      | Some t \<Rightarrow>
          Inr (isoYear (YearFromTime t) @ ''-'' @ pad2 (MonthFromTime t + 1)
               @ ''-'' @ pad2 (DateFromTime t)))"

section \<open>The relational store\<close>

text \<open>
  The tables of \<^verbatim>\<open>initializeDatabase\<close> (database.js), each a list of rows in insertion
  order. Identifiers are numbers. A \<^verbatim>\<open>TIMESTAMP\<close> is the time value of the \<^verbatim>\<open>Date\<close>
  the driver returns for it. The \<^verbatim>\<open>links\<close> column holds the text that \<^verbatim>\<open>createLesson\<close>
  wrote, or \<open>None\<close> for SQL \<^verbatim>\<open>NULL\<close>, and a \<^verbatim>\<open>SELECT\<close> hands that text back.
  Statements are assumed to reach the server: the only statement failures modelled
  are violations of the constraints declared in the schema.
\<close>

datatype refund_status = PENDENTE | APROVADO | REJEITADO

record user_row =
  u_id :: int
  u_name :: string
  u_email :: string

record course_row =
  c_id :: int
  c_name :: string
  c_image_url :: string
  c_description :: string

record module_row =
  m_id :: int
  m_course_id :: int
  m_name :: string
  m_order_index :: int

record lesson_row =
  l_id :: int
  l_module_id :: int
  l_title :: string
  l_video_url :: string
  l_description_text :: "string option"
  l_links :: "string option"
  l_drip_days :: int
  l_order_index :: int

record purchase_row =
  p_id :: int
  p_user_id :: int
  p_course_id :: int
  p_purchase_date :: int

record refund_row =
  rr_id :: int
  rr_user_id :: int
  rr_course_id :: int
  rr_message :: string
  rr_request_date :: int
  rr_status :: refund_status

record database =
  Users :: "user_row list"
  Courses :: "course_row list"
  Modules :: "module_row list"
  Lessons :: "lesson_row list"
  Purchases :: "purchase_row list"
  RefundRequests :: "refund_row list"

text \<open>\<^verbatim>\<open>AUTO_INCREMENT\<close>: one more than the largest identifier in the table, 1 when empty.\<close>

definition next_id :: "int list \<Rightarrow> int" where
  "next_id ids = fold max ids 0 + 1"

datatype sql_error = ER_DUP_ENTRY | ER_NO_REFERENCED_ROW

section \<open>Responses\<close>

text \<open>
  The client-facing message of each reply, by meaning; the source has them in
  Portuguese (written here without the accents):
  \<^item> \<open>PurchaseRequired\<close>: "Acesso negado. Voce precisa comprar este curso para ver o conteudo."
  \<^item> \<open>CourseNotFound\<close>: "Curso nao encontrado."
  \<^item> \<open>ContentInternalError\<close>: "Erro interno ao buscar conteudo do curso."
  \<^item> \<open>CourseIdRequired\<close>: "O ID do curso e obrigatorio."
  \<^item> \<open>PurchaseRegistered name\<close>: "Compra do curso 'name' registrada com sucesso!"
  \<^item> \<open>AlreadyPurchased\<close>: "Voce ja comprou este curso."
  \<^item> \<open>PurchaseInternalError\<close>: "Erro interno ao registrar compra."
  \<^item> \<open>RefundFieldsRequired\<close>: "ID do curso e a mensagem de solicitacao sao obrigatorios."
  \<^item> \<open>PurchaseNotFound\<close>: "Compra nao encontrada para este curso."
  \<^item> \<open>RefundWindowExpired n\<close>: "O prazo de 7 dias para reembolso expirou. Voce comprou ha n dias."
  \<^item> \<open>RefundAlreadyPending\<close>: "Voce ja possui um pedido de reembolso pendente para este curso."
  \<^item> \<open>RefundRequested\<close>: "Pedido de reembolso enviado com sucesso! O administrador sera notificado."
  \<^item> \<open>RefundInternalError\<close>: "Erro interno ao processar pedido de reembolso."
  \<^item> \<open>TokenMissing\<close>: "Acesso negado. Token nao fornecido."
  \<^item> \<open>TokenInvalid\<close>: "Token invalido ou expirado."
  \<^item> \<open>LessonFieldsRequired\<close>: "Modulo ID, titulo, dias de liberacao (drip days) e indice de ordem sao obrigatorios."
  \<^item> \<open>FileMustBeVideo\<close>: "O arquivo enviado deve ser um video."
  \<^item> \<open>VideoUploadFailed\<close>: "Falha ao enviar video para o Cloudinary."
  \<^item> \<open>LinksMustBeJson\<close>: "Os links devem estar em formato JSON valido."
  \<^item> \<open>LessonCreated\<close>: "Aula criada com sucesso!"
  \<^item> \<open>LessonInternalError\<close>: "Erro interno ao criar aula."
\<close>

datatype message =
    PurchaseRequired
  | CourseNotFound
  | ContentInternalError
  | CourseIdRequired
  | PurchaseRegistered string
  | AlreadyPurchased
  | PurchaseInternalError
  | RefundFieldsRequired
  | PurchaseNotFound
  | RefundWindowExpired int
  | RefundAlreadyPending
  | RefundRequested
  | RefundInternalError
  | TokenMissing
  | TokenInvalid
  | LessonFieldsRequired
  | FileMustBeVideo
  | VideoUploadFailed
  | LinksMustBeJson
  | LessonCreated
  | LessonInternalError

text \<open>
  The two shapes of a lesson in the content listing. \<open>'j\<close> is the type of the values
  \<^verbatim>\<open>JSON.parse\<close> returns.
\<close>

record 'j redacted_lesson =
  rd_id :: int
  rd_title :: string
  rd_order_index :: int
  rd_isReleased :: bool
  rd_releaseDate :: string
  rd_videoUrl :: "string option"
  rd_descriptionText :: string
  rd_links :: "'j option"

record 'j released_lesson =
  rl_id :: int
  rl_title :: string
  rl_video_url :: string
  rl_description_text :: "string option"
  rl_links :: "'j option"
  rl_drip_days :: int
  rl_order_index :: int
  rl_isReleased :: bool

datatype 'j lesson_json = Redacted "'j redacted_lesson" | Released "'j released_lesson"

record 'j module_json =
  mj_id :: int
  mj_name :: string
  mj_order_index :: int
  mj_lessons :: "'j lesson_json list"

record dashboard_row =
  d_course_id :: int
  d_name :: string
  d_image_url :: string
  d_description :: string
  d_purchase_date :: int
  d_isRefundEligible :: bool
  d_daysSincePurchase :: int

text \<open>
  A reply is the status code and the body. The body of the content listing is either
  a message or the course with its modules.
\<close>

datatype reply =
    Message message
  | MessageId message int
  | LessonBody message int string
  | DashboardBody "dashboard_row list"

type_synonym response = "nat \<times> reply"

record 'j content =
  ct_course :: "int \<times> string"
  ct_modules :: "'j module_json list"

section \<open>The content listing (userController.js, getCourseContent)\<close>

text \<open>
  The fixed text an unreleased lesson carries instead of its description:
  "O conteudo desta aula sera liberado em breve.", the accented letters as their
  UTF-8 bytes.
\<close>

definition comingSoon :: string where
  "comingSoon = ''O conte'' @ [CHR 0xC3, CHR 0xBA] @ ''do desta aula ser'' @ [CHR 0xC3, CHR 0xA1]
     @ '' liberado em breve.''"

text \<open>
  The callback of \<^verbatim>\<open>lessons.map\<close> (lines 171 to 201). \<open>parse\<close> is \<^verbatim>\<open>JSON.parse\<close>, \<open>None\<close>
  when it throws a \<^verbatim>\<open>SyntaxError\<close>. A comparison with an invalid date is false, and
  \<^verbatim>\<open>toISOString\<close> throws on one. \<open>purchaseDate\<close> and \<open>now\<close> are valid dates.
\<close>

definition isReleased :: "int \<Rightarrow> int option \<Rightarrow> bool" where
  "isReleased now releaseDate = (case releaseDate of None \<Rightarrow> False | Some r \<Rightarrow> now \<ge> r)"

definition dripLesson ::
  "(string \<Rightarrow> 'j option) \<Rightarrow> int \<Rightarrow> int \<Rightarrow> int \<Rightarrow> lesson_row \<Rightarrow> js_error + 'j lesson_json" where
  "dripLesson parse tza purchaseDate now lesson =
     (let dripDays = l_drip_days lesson;
          releaseDate = setDate tza purchaseDate (getDate tza purchaseDate + dripDays)
      in if \<not> isReleased now releaseDate then
           (case isoDate releaseDate of
              Inl e \<Rightarrow> Inl e
            | Inr day \<Rightarrow>
                Inr (Redacted \<lparr>rd_id = l_id lesson, rd_title = l_title lesson,
                       rd_order_index = l_order_index lesson, rd_isReleased = False,
                       rd_releaseDate = day, rd_videoUrl = None,
                       rd_descriptionText = comingSoon, rd_links = None\<rparr>))
         else
           (case (case l_links lesson of
                    None \<Rightarrow> Inr None
                  | Some s \<Rightarrow>
                      if s = [] then Inr None
                      else (case parse s of None \<Rightarrow> Inl SyntaxError | Some v \<Rightarrow> Inr (Some v))) of
              Inl e \<Rightarrow> Inl e
            | Inr links \<Rightarrow>
                Inr (Released \<lparr>rl_id = l_id lesson, rl_title = l_title lesson,
                       rl_video_url = l_video_url lesson,
                       rl_description_text = l_description_text lesson,
                       rl_links = links, rl_drip_days = l_drip_days lesson,
                       rl_order_index = l_order_index lesson, rl_isReleased = True\<rparr>)))"

text \<open>\<^verbatim>\<open>map\<close> with a callback that may throw: the first exception ends it.\<close>

fun mapE :: "('a \<Rightarrow> 'e + 'b) \<Rightarrow> 'a list \<Rightarrow> 'e + 'b list" where
  "mapE f [] = Inr []"
| "mapE f (x # xs) =
     (case f x of
        Inl e \<Rightarrow> Inl e
      | Inr y \<Rightarrow> (case mapE f xs of Inl e \<Rightarrow> Inl e | Inr ys \<Rightarrow> Inr (y # ys)))"

text \<open>The body of the loop over the modules: the lessons of one module, in order.\<close>

definition moduleLessons ::
  "(string \<Rightarrow> 'j option) \<Rightarrow> int \<Rightarrow> database \<Rightarrow> int \<Rightarrow> int \<Rightarrow> module_row \<Rightarrow> js_error + 'j module_json" where
  "moduleLessons parse tza db purchaseDate now m =
     (let lessons = sort_key l_order_index (filter (\<lambda>l. l_module_id l = m_id m) (Lessons db))
      in case mapE (dripLesson parse tza purchaseDate now) lessons of
           Inl e \<Rightarrow> Inl e
         | Inr ls \<Rightarrow>
             Inr \<lparr>mj_id = m_id m, mj_name = m_name m, mj_order_index = m_order_index m,
                  mj_lessons = ls\<rparr>)"

text \<open>
  The handler. Every read of the clock in one request gives the same instant \<open>now\<close>.
  Rows with equal \<^verbatim>\<open>order_index\<close> come in insertion order.
\<close>

definition getCourseContent ::
  "(string \<Rightarrow> 'j option) \<Rightarrow> int \<Rightarrow> database \<Rightarrow> int \<Rightarrow> int \<Rightarrow> int
     \<Rightarrow> nat \<times> (message + 'j content)" where
  "getCourseContent parse tza db now userId courseId =
     (case filter (\<lambda>p. p_user_id p = userId \<and> p_course_id p = courseId) (Purchases db) of
        [] \<Rightarrow> (403, Inl PurchaseRequired)
      | purchase # _ \<Rightarrow>
          (case filter (\<lambda>c. c_id c = courseId) (Courses db) of
             [] \<Rightarrow> (404, Inl CourseNotFound)
           | courseInfo # _ \<Rightarrow>
               (let modules = sort_key m_order_index
                                (filter (\<lambda>m. m_course_id m = courseId) (Modules db))
                in case mapE (moduleLessons parse tza db (p_purchase_date purchase) now) modules of
                     Inl e \<Rightarrow> (500, Inl ContentInternalError)
                   | Inr ms \<Rightarrow>
                       (200, Inr \<lparr>ct_course = (c_id courseInfo, c_name courseInfo),
                                  ct_modules = ms\<rparr>))))"



section \<open>Purchases (userController.js, purchaseCourse and getPurchasedCourses)\<close>

text \<open>
  \<^verbatim>\<open>INSERT INTO Purchases (user_id, course_id)\<close> under the constraints of the schema: the
  unique key \<^verbatim>\<open>user_course_unique\<close> and the two foreign keys. \<open>now\<close> is the value of
  \<^verbatim>\<open>CURRENT_TIMESTAMP\<close>. The result carries the \<^verbatim>\<open>insertId\<close>.
\<close>

definition insertPurchase :: "database \<Rightarrow> int \<Rightarrow> int \<Rightarrow> int \<Rightarrow> sql_error + database \<times> int" where
  "insertPurchase db now userId courseId =
     (if \<exists>p \<in> set (Purchases db). p_user_id p = userId \<and> p_course_id p = courseId
      then Inl ER_DUP_ENTRY
      else if userId \<notin> set (map u_id (Users db)) \<or> courseId \<notin> set (map c_id (Courses db))
      then Inl ER_NO_REFERENCED_ROW
      else (let i = next_id (map p_id (Purchases db))
            in Inr (db\<lparr>Purchases := Purchases db @
                        [\<lparr>p_id = i, p_user_id = userId, p_course_id = courseId,
                          p_purchase_date = now\<rparr>]\<rparr>, i)))"

text \<open>
  \<open>courseId\<close> is the field of the request body, \<open>None\<close> when it is missing; a missing
  field and the number 0 are falsy.
\<close>

definition purchaseCourse :: "database \<Rightarrow> int \<Rightarrow> int \<Rightarrow> int option \<Rightarrow> database \<times> response" where
  "purchaseCourse db now userId courseId =
     (case courseId of
        None \<Rightarrow> (db, 400, Message CourseIdRequired)
      | Some cid \<Rightarrow>
          if cid = 0 then (db, 400, Message CourseIdRequired)
          else (case filter (\<lambda>c. c_id c = cid) (Courses db) of
                  [] \<Rightarrow> (db, 404, Message CourseNotFound)
                | course # _ \<Rightarrow>
                    (case insertPurchase db now userId cid of
                       Inl ER_DUP_ENTRY \<Rightarrow> (db, 409, Message AlreadyPurchased)
                     | Inl ER_NO_REFERENCED_ROW \<Rightarrow> (db, 500, Message PurchaseInternalError)
                     | Inr (db', i) \<Rightarrow>
                         (db', 201, MessageId (PurchaseRegistered (c_name course)) i))))"

text \<open>
  The dashboard: the purchases of the user joined with their courses, latest first,
  each annotated by the callback of \<^verbatim>\<open>purchases.map\<close> (lines 107 to 120).
\<close>

definition refundStatus :: "int \<Rightarrow> purchase_row \<times> course_row \<Rightarrow> dashboard_row" where
  "refundStatus now course =
     (let purchaseDate = p_purchase_date (fst course);
          diffTime = \<bar>now - purchaseDate\<bar>;
          diffDays = \<lceil>real_of_int diffTime / (1000 * 60 * 60 * 24)\<rceil>;
          isRefundEligible = (diffDays \<le> 7)
      in \<lparr>d_course_id = p_course_id (fst course), d_name = c_name (snd course),
          d_image_url = c_image_url (snd course), d_description = c_description (snd course),
          d_purchase_date = purchaseDate, d_isRefundEligible = isRefundEligible,
          d_daysSincePurchase = diffDays\<rparr>)"

definition getPurchasedCourses :: "database \<Rightarrow> int \<Rightarrow> int \<Rightarrow> response" where
  "getPurchasedCourses db now userId =
     (let purchases = sort_key (\<lambda>r. - p_purchase_date (fst r))
            (concat (map (\<lambda>p. map (\<lambda>c. (p, c)) (filter (\<lambda>c. c_id c = p_course_id p) (Courses db)))
                         (filter (\<lambda>p. p_user_id p = userId) (Purchases db))))
      in (200, DashboardBody (map (refundStatus now) purchases)))"

section \<open>Refund requests (userController.js, requestRefund; brevo.js)\<close>

record mail =
  mail_userName :: string
  mail_userEmail :: string
  mail_courseName :: string
  mail_message :: string

datatype mail_error = EmailServiceFailure

text \<open>
  \<^verbatim>\<open>sendRefundNotification\<close>. \<open>apiInstance\<close> is \<open>None\<close> when no API key was configured, and
  then nothing is sent and nothing is thrown; otherwise it is the \<^verbatim>\<open>sendTransacEmail\<close>
  of the client, \<open>False\<close> when that call throws, and the failure is thrown again.
\<close>

definition sendRefundNotification ::
  "(mail \<Rightarrow> bool) option \<Rightarrow> string \<Rightarrow> string \<Rightarrow> string \<Rightarrow> string \<Rightarrow> mail_error + unit" where
  "sendRefundNotification apiInstance userName userEmail courseName message =
     (case apiInstance of
        None \<Rightarrow> Inr ()
      | Some sendTransacEmail \<Rightarrow>
          if sendTransacEmail \<lparr>mail_userName = userName, mail_userEmail = userEmail,
                               mail_courseName = courseName, mail_message = message\<rparr>
          then Inr ()
          else Inl EmailServiceFailure)"

text \<open>
  \<^verbatim>\<open>INSERT INTO RefundRequests (user_id, course_id, message)\<close>: the status defaults to
  \<open>PENDENTE\<close>, and the two foreign keys are checked.
\<close>

definition insertRefundRequest :: "database \<Rightarrow> int \<Rightarrow> int \<Rightarrow> int \<Rightarrow> string \<Rightarrow> sql_error + database" where
  "insertRefundRequest db now userId courseId message =
     (if userId \<notin> set (map u_id (Users db)) \<or> courseId \<notin> set (map c_id (Courses db))
      then Inl ER_NO_REFERENCED_ROW
      else Inr (db\<lparr>RefundRequests := RefundRequests db @
                    [\<lparr>rr_id = next_id (map rr_id (RefundRequests db)), rr_user_id = userId,
                      rr_course_id = courseId, rr_message = message, rr_request_date = now,
                      rr_status = PENDENTE\<rparr>]\<rparr>))"

text \<open>The rows of the three-table join of step 1, as (course, user, purchase).\<close>

definition purchaseRows :: "database \<Rightarrow> int \<Rightarrow> int \<Rightarrow> (course_row \<times> user_row \<times> purchase_row) list" where
  "purchaseRows db userId courseId =
     concat (map (\<lambda>p. concat (map (\<lambda>c. map (\<lambda>u. (c, u, p))
                                          (filter (\<lambda>u. u_id u = p_user_id p) (Users db)))
                                 (filter (\<lambda>c. c_id c = p_course_id p) (Courses db))))
                 (filter (\<lambda>p. p_user_id p = userId \<and> p_course_id p = courseId) (Purchases db)))"

text \<open>
  \<open>courseId\<close> and \<open>message\<close> are the fields of the request body; a missing field, the
  number 0 and the empty text are falsy.
\<close>

definition requestRefund ::
  "database \<Rightarrow> (mail \<Rightarrow> bool) option \<Rightarrow> int \<Rightarrow> int \<Rightarrow> int option \<Rightarrow> string option
     \<Rightarrow> database \<times> response" where
  "requestRefund db apiInstance now userId courseId message =
     (case (courseId, message) of
        (Some cid, Some msg) \<Rightarrow>
          if cid = 0 \<or> msg = [] then (db, 400, Message RefundFieldsRequired)
          else (case purchaseRows db userId cid of
                  [] \<Rightarrow> (db, 404, Message PurchaseNotFound)
                | (course, user, purchase) # _ \<Rightarrow>
                    (let purchaseDate = p_purchase_date purchase;
                         diffTime = \<bar>now - purchaseDate\<bar>;
                         diffDays = \<lceil>real_of_int diffTime / (1000 * 60 * 60 * 24)\<rceil>
                     in if diffDays > 7 then (db, 403, Message (RefundWindowExpired diffDays))
                        else if filter (\<lambda>r. rr_user_id r = userId \<and> rr_course_id r = cid
                                           \<and> rr_status r = PENDENTE) (RefundRequests db) \<noteq> []
                        then (db, 409, Message RefundAlreadyPending)
                        else (case insertRefundRequest db now userId cid msg of
                                Inl e \<Rightarrow> (db, 500, Message RefundInternalError)
                              | Inr db' \<Rightarrow>
                                  (case sendRefundNotification apiInstance (u_name user)
                                          (u_email user) (c_name course) msg of
                                     Inl e \<Rightarrow> (db', 500, Message RefundInternalError)
                                   | Inr _ \<Rightarrow> (db', 200, Message RefundRequested)))))
      | _ \<Rightarrow> (db, 400, Message RefundFieldsRequired))"

section \<open>Authentication (authController.js, authMiddleware)\<close>

text \<open>\<^verbatim>\<open>s.split(c)\<close> for a separator of one character.\<close>

fun split :: "char \<Rightarrow> string \<Rightarrow> string list" where
  "split c [] = [[]]"
| "split c (x # xs) =
     (if x = c then [] # split c xs
      else (case split c xs of [] \<Rightarrow> [[x]] | w # ws \<Rightarrow> (x # w) # ws))"

text \<open>
  \<^verbatim>\<open>req.headers.authorization?.split(' ')[1]\<close>; \<open>None\<close> is \<^verbatim>\<open>undefined\<close>: the header is
  absent, or the array has no second element.
\<close>

definition bearerToken :: "string option \<Rightarrow> string option" where
  "bearerToken authorization =
     (case authorization of
        None \<Rightarrow> None
      | Some h \<Rightarrow> (let parts = split CHR '' '' h in
                   if 1 < length parts then Some (parts ! 1) else None))"

datatype auth_outcome = Reject nat message | Next int string

text \<open>
  \<open>verify\<close> is \<^verbatim>\<open>jwt.verify\<close> under the configured secret, \<open>None\<close> when it throws and
  otherwise the \<^verbatim>\<open>id\<close> and \<^verbatim>\<open>type\<close> of the decoded token. The first component of the
  result lists the arguments of the calls of \<open>verify\<close>, in order.
\<close>

definition authMiddleware ::
  "(string \<Rightarrow> (int \<times> string) option) \<Rightarrow> string option \<Rightarrow> string list \<times> auth_outcome" where
  "authMiddleware verify authorization =
     (case bearerToken authorization of
        None \<Rightarrow> ([], Reject 401 TokenMissing)
      | Some token \<Rightarrow>
          if token = [] then ([], Reject 401 TokenMissing)
          else (case verify token of
                  None \<Rightarrow> ([token], Reject 403 TokenInvalid)
                | Some (uid, utype) \<Rightarrow> ([token], Next uid utype)))"

section \<open>Lessons (adminController.js, createLesson; cloudinary.js)\<close>

datatype upload_error = UploadFailure

text \<open>
  \<^verbatim>\<open>uploadFile\<close>. \<open>upload\<close> is \<^verbatim>\<open>cloudinary.uploader.upload\<close>: from the data, the resource
  type and the folder to the secure URL, \<open>None\<close> when it throws. \<open>assets\<close> lists the
  URLs of what the object store holds.
\<close>

definition uploadFile ::
  "(string \<Rightarrow> string \<Rightarrow> string \<Rightarrow> string option) \<Rightarrow> string list \<Rightarrow> string \<Rightarrow> string \<Rightarrow> string
     \<Rightarrow> upload_error + string list \<times> string" where
  "uploadFile upload assets filePath resourceType folder =
     (case upload filePath resourceType (''cursos_online/'' @ folder) of
        None \<Rightarrow> Inl UploadFailure
      | Some secure_url \<Rightarrow> Inr (assets @ [secure_url], secure_url))"

text \<open>
  The fields of the request: a missing field is \<open>None\<close>. \<open>moduleId\<close>, \<open>dripDays\<close> and
  \<open>orderIndex\<close> are numbers (for the last two, the value of \<^verbatim>\<open>parseInt\<close>). \<open>req_file\<close> is the
  MIME type of the uploaded file and its content in base 64.
\<close>

record lesson_request =
  moduleId :: "int option"
  title :: "string option"
  descriptionText :: "string option"
  linksJson :: "string option"
  dripDays :: "int option"
  orderIndex :: "int option"
  req_file :: "(string \<times> string) option"

text \<open>\<^verbatim>\<open>INSERT INTO Lessons\<close>, with the foreign key to the module checked.\<close>

definition insertLesson ::
  "database \<Rightarrow> int \<Rightarrow> string \<Rightarrow> string \<Rightarrow> string option \<Rightarrow> string option \<Rightarrow> int \<Rightarrow> int
     \<Rightarrow> sql_error + database \<times> int" where
  "insertLesson db module_id ttl video_url description_text links drip_days order_index =
     (if module_id \<notin> set (map m_id (Modules db)) then Inl ER_NO_REFERENCED_ROW
      else (let i = next_id (map l_id (Lessons db))
            in Inr (db\<lparr>Lessons := Lessons db @
                        [\<lparr>l_id = i, l_module_id = module_id, l_title = ttl,
                          l_video_url = video_url, l_description_text = description_text,
                          l_links = links, l_drip_days = drip_days,
                          l_order_index = order_index\<rparr>]\<rparr>, i)))"

text \<open>
  Step 2 of the handler (lines 148 to 153): \<open>Inr\<close> the text to store, \<open>Inl\<close> when
  \<^verbatim>\<open>JSON.parse\<close> throws. \<open>stringify\<close> is \<^verbatim>\<open>JSON.stringify\<close>.
\<close>

definition formatLinks ::
  "(string \<Rightarrow> 'j option) \<Rightarrow> ('j \<Rightarrow> string) \<Rightarrow> string option \<Rightarrow> js_error + string option" where
  "formatLinks parse stringify lj =
     (case lj of
        None \<Rightarrow> Inr None
      | Some s \<Rightarrow>
          if s = [] then Inr None
          else (case parse s of None \<Rightarrow> Inl SyntaxError | Some v \<Rightarrow> Inr (Some (stringify v))))"

text \<open>The handler, on the store and the object store.\<close>

definition createLesson ::
  "(string \<Rightarrow> string \<Rightarrow> string \<Rightarrow> string option) \<Rightarrow> (string \<Rightarrow> 'j option) \<Rightarrow> ('j \<Rightarrow> string)
     \<Rightarrow> database \<times> string list \<Rightarrow> lesson_request \<Rightarrow> (database \<times> string list) \<times> response" where
  "createLesson upload parse stringify st req =
     (let db = fst st; assets = snd st in
      case (moduleId req, title req, dripDays req, orderIndex req) of
        (Some mid, Some ttl, Some drip, Some ord) \<Rightarrow>
          if mid = 0 \<or> ttl = [] then (st, 400, Message LessonFieldsRequired)
          else
            (case (case req_file req of
                     None \<Rightarrow> Inr (assets, [])
                   | Some (mimetype, base64) \<Rightarrow>
                       if take 6 mimetype \<noteq> ''video/'' then Inl (400, FileMustBeVideo)
                       else (case uploadFile upload assets
                                    (''data:'' @ mimetype @ '';base64,'' @ base64)
                                    ''video'' ''aulas_videos'' of
                               Inl e \<Rightarrow> Inl (500, VideoUploadFailed)
                             | Inr r \<Rightarrow> Inr r)) of
               Inl (code, m) \<Rightarrow> (st, code, Message m)
             | Inr (assets', videoUrl) \<Rightarrow>
                 (case formatLinks parse stringify (linksJson req) of
                    Inl e \<Rightarrow> ((db, assets'), 400, Message LinksMustBeJson)
                  | Inr links \<Rightarrow>
                      (case insertLesson db mid ttl videoUrl
                              (case descriptionText req of
                                 None \<Rightarrow> None
                               | Some d \<Rightarrow> if d = [] then None else Some d)
                              links drip ord of
                         Inl e \<Rightarrow> ((db, assets'), 500, Message LessonInternalError)
                       | Inr (db', i) \<Rightarrow>
                           ((db', assets'), 201, LessonBody LessonCreated i videoUrl))))
      | _ \<Rightarrow> (st, 400, Message LessonFieldsRequired))"

section \<open>Invariants of the store\<close>

text \<open>
  What the schema enforces on purchases: the unique key on (user, course), the two
  foreign keys, and identifiers from \<^verbatim>\<open>AUTO_INCREMENT\<close>, which are never 0.
\<close>

definition uniquePurchases :: "database \<Rightarrow> bool" where
  "uniquePurchases db = distinct (map (\<lambda>p. (p_user_id p, p_course_id p)) (Purchases db))"

definition consistent :: "database \<Rightarrow> bool" where
  "consistent db \<longleftrightarrow>
     uniquePurchases db
     \<and> (\<forall>p \<in> set (Purchases db).
          p_user_id p \<in> set (map u_id (Users db)) \<and> p_course_id p \<in> set (map c_id (Courses db)))
     \<and> (\<forall>c \<in> set (Courses db). c_id c \<noteq> 0)"

text \<open>At most one pending refund request for each (user, course).\<close>

definition pendingFor :: "database \<Rightarrow> int \<Rightarrow> int \<Rightarrow> refund_row list" where
  "pendingFor db userId courseId =
     filter (\<lambda>r. rr_user_id r = userId \<and> rr_course_id r = courseId \<and> rr_status r = PENDENTE)
       (RefundRequests db)"


text \<open>The store of a fresh server: no rows (the bootstrap administrator aside).\<close>

definition emptyDb :: database where
  "emptyDb =
     \<lparr>Users = [], Courses = [], Modules = [], Lessons = [], Purchases = [],
      RefundRequests = []\<rparr>"

section \<open>Concrete data\<close>

text \<open>
  Two lessons, and a third whose release delay is far below zero; a store with one
  user, two courses, one module holding the first two lessons, and one purchase made
  on 14 November 2023 at 22:13:20 UTC.
\<close>

definition setupLesson :: lesson_row where
  "setupLesson =
     \<lparr>l_id = 1, l_module_id = 1, l_title = ''Setup'', l_video_url = ''https://v/1'',
      l_description_text = Some ''Install'', l_links = Some ''true'',
      l_drip_days = 0, l_order_index = 1\<rparr>"

definition routesLesson :: lesson_row where
  "routesLesson =
     \<lparr>l_id = 2, l_module_id = 1, l_title = ''Routes'', l_video_url = ''https://v/2'',
      l_description_text = None, l_links = None,
      l_drip_days = 3, l_order_index = 2\<rparr>"


definition anaUser :: user_row where
  "anaUser = \<lparr>u_id = 1, u_name = ''Ana'', u_email = ''ana@example.com''\<rparr>"

definition nodeCourse :: course_row where
  "nodeCourse =
     \<lparr>c_id = 1, c_name = ''Node'', c_image_url = ''https://img/1.png'',
      c_description = ''Backend''\<rparr>"

definition sqlCourse :: course_row where
  "sqlCourse =
     \<lparr>c_id = 2, c_name = ''SQL'', c_image_url = ''https://img/2.png'',
      c_description = ''Queries''\<rparr>"

definition anaPurchase :: purchase_row where
  "anaPurchase =
     \<lparr>p_id = 1, p_user_id = 1, p_course_id = 1, p_purchase_date = 1700000000000\<rparr>"

definition demoDb :: database where
  "demoDb =
     \<lparr>Users = [anaUser],
      Courses = [nodeCourse, sqlCourse],
      Modules = [\<lparr>m_id = 1, m_course_id = 1, m_name = ''Intro'', m_order_index = 1\<rparr>],
      Lessons = [setupLesson, routesLesson],
      Purchases = [anaPurchase],
      RefundRequests = []\<rparr>"



text \<open>
  The part of \<^verbatim>\<open>JSON.parse\<close> and \<^verbatim>\<open>JSON.stringify\<close> on the literals \<^verbatim>\<open>true\<close>, \<^verbatim>\<open>false\<close> and
  \<^verbatim>\<open>null\<close> written without white space, to run the handlers on concrete requests. It
  is used below only on these three texts and on texts that \<^verbatim>\<open>JSON.parse\<close> rejects too.
\<close>

datatype literal = JTrue | JFalse | JNull

definition parseLiteral :: "string \<Rightarrow> literal option" where
  "parseLiteral s =
     (if s = ''true'' then Some JTrue
      else if s = ''false'' then Some JFalse
      else if s = ''null'' then Some JNull
      else None)"








definition rejectToken :: "string \<Rightarrow> (int \<times> string) option" where
  "rejectToken token = None"

section \<open>Properties of the calendar\<close>

text \<open>
  \<open>YearFromTime\<close> is the year ECMA-262 defines: the largest \<open>y\<close> with
  \<open>TimeFromYear y \<le> t\<close>.
\<close>

lemma DayFromYear_digits:
  fixes a b c e :: int
  assumes "0 \<le> b" "b \<le> 3" "0 \<le> c" "c \<le> 24" "0 \<le> e" "e \<le> 3"
  shows "DayFromYear (1601 + 400 * a + 100 * b + 4 * c + e) =
           146097 * a + 36524 * b + 1461 * c + 365 * e - 134774"
proof -
  have d4: "(1601 + 400 * a + 100 * b + 4 * c + e - 1969) div 4 = 100 * a + 25 * b + c - 92"
    by (rule int_div_pos_eq [where r = e]) (use assms in simp_all)
  have d100: "(1601 + 400 * a + 100 * b + 4 * c + e - 1901) div 100 = 4 * a + b - 3"
    by (rule int_div_pos_eq [where r = "4 * c + e"]) (use assms in simp_all)
  have d400: "(1601 + 400 * a + 100 * b + 4 * c + e - 1601) div 400 = a"
    by (rule int_div_pos_eq [where r = "100 * b + 4 * c + e"]) (use assms in simp_all)
  show ?thesis
    unfolding DayFromYear_def d4 d100 d400 by simp
qed

lemma DayFromYear_next:
  fixes a b c e :: int
  assumes "0 \<le> b" "b \<le> 3" "0 \<le> c" "c \<le> 24" "0 \<le> e" "e \<le> 3"
  shows "DayFromYear (1601 + 400 * a + 100 * b + 4 * c + e + 1) =
           146097 * a + 36524 * b + 1461 * c + 365 * e - 134774 + 365
           + (if e = 3 \<and> (c < 24 \<or> b = 3) then 1 else 0)"
proof -
  consider "e < 3" | "e = 3" "c < 24" | "e = 3" "c = 24" "b < 3" | "e = 3" "c = 24" "b = 3"
    using assms by linarith
  then show ?thesis
  proof cases
    case 1
    then show ?thesis
      using DayFromYear_digits [of b c "e + 1" a] assms by (simp add: algebra_simps)
  next
    case 2
    then show ?thesis
      using DayFromYear_digits [of b "c + 1" 0 a] assms by (simp add: algebra_simps)
  next
    case 3
    then show ?thesis
      using DayFromYear_digits [of "b + 1" 0 0 a] assms by (simp add: algebra_simps)
  next
    case 4
    then show ?thesis
      using DayFromYear_digits [of 0 0 0 "a + 1"] by (simp add: algebra_simps)
  qed
qed

lemma YearFromTime_bounds:
  "DayFromYear (YearFromTime t) \<le> Day t \<and> Day t < DayFromYear (YearFromTime t + 1)"
proof -
  define n where "n = Day t - DayFromYear 1601"
  define a where "a = n div 146097"
  define r where "r = n mod 146097"
  define q where "q = r div 36524"
  define m where "m = r mod 36524"
  define b where "b = min q 3"
  define r1 where "r1 = r - b * 36524"
  define c where "c = r1 div 1461"
  define r4 where "r4 = r1 mod 1461"
  define q' where "q' = r4 div 365"
  define m' where "m' = r4 mod 365"
  define e where "e = min q' 3"
  have y: "YearFromTime t = 1601 + 400 * a + 100 * b + 4 * c + e"
    by (simp add: YearFromTime_def Let_def n_def a_def r_def q_def b_def r1_def c_def r4_def
          q'_def e_def)
  have d1601: "DayFromYear 1601 = - 134774"
    by (simp add: DayFromYear_def)
  have n: "n = 146097 * a + r" "0 \<le> r" "r < 146097"
    by (simp_all add: a_def r_def)
  have qm: "r = 36524 * q + m" "0 \<le> m" "m < 36524"
    by (simp_all add: q_def m_def)
  have q0: "0 \<le> q"
    using n(2) by (simp add: q_def pos_imp_zdiv_nonneg_iff)
  have b: "0 \<le> b" "b \<le> 3"
    using q0 by (simp_all add: b_def)
  have r1: "0 \<le> r1" "r1 \<le> 36524" "b < 3 \<longrightarrow> r1 < 36524"
    using n(3) qm q0 unfolding r1_def b_def min_def by (auto split: if_splits)
  have r4: "r1 = 1461 * c + r4" "0 \<le> r4" "r4 < 1461"
    by (simp_all add: c_def r4_def)
  have c0: "0 \<le> c"
    using r1(1) by (simp add: c_def pos_imp_zdiv_nonneg_iff)
  have c24: "c \<le> 24"
    using r1(2) r4 by linarith
  note c = c0 c24
  have qm': "r4 = 365 * q' + m'" "0 \<le> m'" "m' < 365"
    by (simp_all add: q'_def m'_def)
  have q0': "0 \<le> q'"
    using r4(2) by (simp add: q'_def pos_imp_zdiv_nonneg_iff)
  have e: "0 \<le> e" "e \<le> 3"
    using q0' by (simp_all add: e_def)
  have r5: "0 \<le> r4 - 365 * e" "r4 - 365 * e \<le> 365" "e < 3 \<longrightarrow> r4 - 365 * e < 365"
    using r4(3) qm' q0' unfolding e_def min_def by (auto split: if_splits)
  have day: "Day t = 146097 * a + 36524 * b + 1461 * c + r4 - 134774"
    using n(1) r4(1) unfolding n_def r1_def d1601 by linarith
  have lo: "DayFromYear (YearFromTime t) \<le> Day t"
    unfolding y DayFromYear_digits [OF b c e] day using r5(1) by simp
  have hi: "Day t < DayFromYear (YearFromTime t + 1)"
  proof -
    have "c = 24 \<and> b < 3 \<longrightarrow> r4 < 1460"
      using r1(3) r4(1) by auto
    then show ?thesis
      unfolding y DayFromYear_next [OF b c e] day using r5 e c b
      by (auto split: if_splits)
  qed
  show ?thesis using lo hi by simp
qed

lemma DayFromYear_step: "DayFromYear y < DayFromYear (y + 1)"
proof -
  have a: "(y - 1969) div 4 \<le> (y + 1 - 1969) div 4"
    by (rule zdiv_mono1) simp_all
  have "(y + 1 - 1901) div 100 \<le> (y - 1901 + 100) div 100"
    by (rule zdiv_mono1) simp_all
  then have b: "(y + 1 - 1901) div 100 \<le> (y - 1901) div 100 + 1"
    by simp
  have c: "(y - 1601) div 400 \<le> (y + 1 - 1601) div 400"
    by (rule zdiv_mono1) simp_all
  have "365 * (y - 1970) + A - B + C < 365 * (y + 1 - 1970) + A' - B' + C'"
    if "A \<le> A'" "B' \<le> B + 1" "C \<le> C'" for A A' B B' C C' :: int
    using that by simp
  from this [OF a b c] show ?thesis
    unfolding DayFromYear_def .
qed

lemma DayFromYear_mono: "y \<le> z \<Longrightarrow> DayFromYear y \<le> DayFromYear z"
proof (induction z rule: int_ge_induct)
  case base
  then show ?case by simp
next
  case (step i)
  then show ?case using DayFromYear_step [of i] by simp
qed

lemma TimeFromYear_le: "TimeFromYear y \<le> t \<longleftrightarrow> DayFromYear y \<le> Day t"
proof
  assume "TimeFromYear y \<le> t"
  then have "(msPerDay * DayFromYear y) div msPerDay \<le> t div msPerDay"
    unfolding TimeFromYear_def by (intro zdiv_mono1) (simp_all add: msPerDay_def)
  then show "DayFromYear y \<le> Day t"
    by (simp add: Day_def msPerDay_def)
next
  assume "DayFromYear y \<le> Day t"
  then have "msPerDay * DayFromYear y \<le> msPerDay * (t div msPerDay)"
    by (simp add: Day_def msPerDay_def)
  also have "\<dots> \<le> t"
    by (simp add: msPerDay_def)
  finally show "TimeFromYear y \<le> t"
    by (simp add: TimeFromYear_def)
qed

lemma YearFromTime_largest:
  "TimeFromYear (YearFromTime t) \<le> t \<and> (\<forall>y. TimeFromYear y \<le> t \<longrightarrow> y \<le> YearFromTime t)"
proof (intro conjI allI impI)
  show "TimeFromYear (YearFromTime t) \<le> t"
    using YearFromTime_bounds [of t] by (simp add: TimeFromYear_le)
next
  fix y
  assume "TimeFromYear y \<le> t"
  then have le: "DayFromYear y \<le> Day t"
    by (simp add: TimeFromYear_le)
  show "y \<le> YearFromTime t"
  proof (rule ccontr)
    assume "\<not> y \<le> YearFromTime t"
    then have "YearFromTime t + 1 \<le> y" by simp
    then have "DayFromYear (YearFromTime t + 1) \<le> DayFromYear y"
      by (rule DayFromYear_mono)
    then show False
      using le YearFromTime_bounds [of t] by linarith
  qed
qed

lemma MonthFromTime_range: "0 \<le> MonthFromTime t \<and> MonthFromTime t < 12"
  by (simp add: MonthFromTime_def Let_def)

lemma MakeDay_of_date:
  "MakeDay (YearFromTime t) (MonthFromTime t) (DateFromTime t + d) = Day t + d"
proof -
  have m: "MonthFromTime t div 12 = 0" "MonthFromTime t mod 12 = MonthFromTime t"
    using MonthFromTime_range [of t] by simp_all
  show ?thesis
    by (simp add: MakeDay_def Let_def m DateFromTime_def DayWithinYear_def InLeapYear_def)
qed

lemma setDate_adds_days:
  "setDate tza t (getDate tza t + d) = TimeClip (t + d * msPerDay)"
proof -
  have "MakeDate (Day (t + tza) + d) (TimeWithinDay (t + tza)) = t + tza + d * msPerDay"
    by (simp add: MakeDate_def Day_def TimeWithinDay_def algebra_simps)
  then show ?thesis
    by (simp add: setDate_def getDate_def LocalTime_def UTC_def Let_def MakeDay_of_date)
qed


section \<open>Drip release\<close>






text \<open>
  The listing is the callback applied to the lessons of each module of the course, in
  order, and fails with 500 as soon as the callback throws on one of them.
\<close>

lemma mapE_Inr:
  "mapE f xs = Inr ys \<Longrightarrow> list_all2 (\<lambda>x y. f x = Inr y) xs ys"
  by (induction xs arbitrary: ys) (auto split: sum.splits)

lemma mapE_Inl:
  "mapE f xs = Inl e \<Longrightarrow> \<exists>x \<in> set xs. f x = Inl e"
  by (induction xs) (auto split: sum.splits)

lemma moduleLessons_Inr:
  assumes "moduleLessons parse tza db P now m = Inr mj"
  shows "mj_id mj = m_id m \<and> mj_name mj = m_name m \<and> mj_order_index mj = m_order_index m
       \<and> list_all2 (\<lambda>l y. dripLesson parse tza P now l = Inr y)
            (sort_key l_order_index (filter (\<lambda>l. l_module_id l = m_id m) (Lessons db)))
            (mj_lessons mj)"
  using assms
  by (auto simp: moduleLessons_def Let_def split: sum.splits dest: mapE_Inr)

lemma getCourseContent_ok:
  assumes "getCourseContent parse tza db now u c = (200, Inr ct)"
  shows "\<exists>purchase rest.
           filter (\<lambda>p. p_user_id p = u \<and> p_course_id p = c) (Purchases db) = purchase # rest
           \<and> list_all2 (\<lambda>m mj. moduleLessons parse tza db (p_purchase_date purchase) now m = Inr mj)
                (sort_key m_order_index (filter (\<lambda>m. m_course_id m = c) (Modules db)))
                (ct_modules ct)"
  using assms
  by (auto simp: getCourseContent_def Let_def split: list.splits sum.splits dest: mapE_Inr)







section \<open>Redaction\<close>



section \<open>Access gating of the content listing\<close>

text \<open>
  C4. The content listing checks the purchase before the course: without a purchase
  row for (user, course) it answers 403 with the purchase-required message, whether
  or not the course exists; it answers 404 exactly when a purchase row exists and the
  course does not, and then with the course-not-found message; the two replies differ.
\<close>

theorem content_gate_order:
  "(\<not> (\<exists>p \<in> set (Purchases db). p_user_id p = u \<and> p_course_id p = c) \<longrightarrow>
       getCourseContent parse tza db now u c = (403, Inl PurchaseRequired))
   \<and> (fst (getCourseContent parse tza db now u c) = 403 \<longleftrightarrow>
        \<not> (\<exists>p \<in> set (Purchases db). p_user_id p = u \<and> p_course_id p = c))
   \<and> (fst (getCourseContent parse tza db now u c) = 404 \<longleftrightarrow>
        (\<exists>p \<in> set (Purchases db). p_user_id p = u \<and> p_course_id p = c)
        \<and> \<not> (\<exists>x \<in> set (Courses db). c_id x = c))
   \<and> (fst (getCourseContent parse tza db now u c) = 404 \<longrightarrow>
        getCourseContent parse tza db now u c = (404, Inl CourseNotFound))
   \<and> (403, Inl PurchaseRequired) \<noteq> ((404, Inl CourseNotFound) :: nat \<times> (message + 'j content))"
proof -
  let ?ps = "filter (\<lambda>p. p_user_id p = u \<and> p_course_id p = c) (Purchases db)"
  let ?cs = "filter (\<lambda>x. c_id x = c) (Courses db)"
  have ps: "?ps = [] \<longleftrightarrow> \<not> (\<exists>p \<in> set (Purchases db). p_user_id p = u \<and> p_course_id p = c)"
    by (auto simp: filter_empty_conv)
  have cs: "?cs = [] \<longleftrightarrow> \<not> (\<exists>x \<in> set (Courses db). c_id x = c)"
    by (auto simp: filter_empty_conv)
  show ?thesis
  proof (cases ?ps)
    case Nil
    then show ?thesis using ps by (simp add: getCourseContent_def)
  next
    case (Cons p rest)
    note P = this
    show ?thesis
    proof (cases ?cs)
      case Nil
      then show ?thesis using ps cs P by (simp add: getCourseContent_def)
    next
      case (Cons x rest')
      then show ?thesis using ps cs P
        by (simp add: getCourseContent_def Let_def split: sum.splits)
    qed
  qed
qed

theorem content_gate_order_witness:
  "\<not> (\<exists>p \<in> set (Purchases demoDb). p_user_id p = 1 \<and> p_course_id p = 2)
   \<and> (\<exists>x \<in> set (Courses demoDb). c_id x = 2)
   \<and> getCourseContent parseLiteral 0 demoDb 1700000000000 1 2 = (403, Inl PurchaseRequired)
   \<and> (\<exists>p \<in> set (Purchases (demoDb\<lparr>Courses := []\<rparr>)). p_user_id p = 1 \<and> p_course_id p = 1)
   \<and> getCourseContent parseLiteral 0 (demoDb\<lparr>Courses := []\<rparr>) 1700000000000 1 1
       = (404, Inl CourseNotFound)"
proof -
  have h1: "\<not> (\<exists>p \<in> set (Purchases demoDb). p_user_id p = 1 \<and> p_course_id p = 2)"
    by (simp add: demoDb_def anaPurchase_def)
  have h2: "\<exists>x \<in> set (Courses demoDb). c_id x = 2"
    by (simp add: demoDb_def sqlCourse_def)
  have h3: "\<exists>p \<in> set (Purchases (demoDb\<lparr>Courses := []\<rparr>)). p_user_id p = 1 \<and> p_course_id p = 1"
    by (simp add: demoDb_def anaPurchase_def)
  have h4: "\<not> (\<exists>x \<in> set (Courses (demoDb\<lparr>Courses := []\<rparr>)). c_id x = 1)"
    by simp
  show ?thesis
    using h1 h2 h3 h4
      content_gate_order [of demoDb 1 2 parseLiteral 0 1700000000000]
      content_gate_order [of "demoDb\<lparr>Courses := []\<rparr>" 1 1 parseLiteral 0 1700000000000]
    by simp
qed

section \<open>The refund window\<close>

text \<open>The day count of both handlers, in integer arithmetic.\<close>

lemma ceil_days:
  "\<lceil>real_of_int a / (1000 * 60 * 60 * 24)\<rceil> = - ((- a) div 86400000)"
proof -
  have "\<lceil>real_of_int a / real_of_int 86400000\<rceil> = - ((- a) div 86400000)"
    by (rule ceiling_divide_eq_div)
  then show ?thesis by simp
qed

lemma purchaseRows_hd:
  assumes "purchaseRows db u cid = (course, user, p) # rest"
  shows "p \<in> set (Purchases db) \<and> p_user_id p = u \<and> p_course_id p = cid
       \<and> course \<in> set (Courses db) \<and> c_id course = cid
       \<and> user \<in> set (Users db) \<and> u_id user = u"
proof -
  have "(course, user, p) \<in> set (purchaseRows db u cid)"
    using assms by simp
  then show ?thesis
    by (auto simp: purchaseRows_def)
qed

lemma requestRefund_found:
  assumes "purchaseRows db u cid = (course, user, p) # rest" "cid \<noteq> 0" "msg \<noteq> []"
      and d: "d = \<lceil>real_of_int \<bar>now - p_purchase_date p\<bar> / (1000 * 60 * 60 * 24)\<rceil>"
  shows "requestRefund db api now u (Some cid) (Some msg) =
     (if d > 7 then (db, 403, Message (RefundWindowExpired d))
      else if pendingFor db u cid \<noteq> [] then (db, 409, Message RefundAlreadyPending)
      else (db\<lparr>RefundRequests := RefundRequests db @
                    [\<lparr>rr_id = next_id (map rr_id (RefundRequests db)), rr_user_id = u,
                      rr_course_id = cid, rr_message = msg, rr_request_date = now,
                      rr_status = PENDENTE\<rparr>]\<rparr>,
            case sendRefundNotification api (u_name user) (u_email user) (c_name course) msg of
              Inl e \<Rightarrow> (500, Message RefundInternalError)
            | Inr x \<Rightarrow> (200, Message RefundRequested)))"
proof -
  have ins: "insertRefundRequest db now u cid msg =
     Inr (db\<lparr>RefundRequests := RefundRequests db @
                    [\<lparr>rr_id = next_id (map rr_id (RefundRequests db)), rr_user_id = u,
                      rr_course_id = cid, rr_message = msg, rr_request_date = now,
                      rr_status = PENDENTE\<rparr>]\<rparr>)"
    using purchaseRows_hd [OF assms(1)]
    by (auto simp: insertRefundRequest_def intro: rev_image_eqI)
  have "requestRefund db api now u (Some cid) (Some msg) =
     (if d > 7 then (db, 403, Message (RefundWindowExpired d))
      else if pendingFor db u cid \<noteq> [] then (db, 409, Message RefundAlreadyPending)
      else (case insertRefundRequest db now u cid msg of
              Inl e \<Rightarrow> (db, 500, Message RefundInternalError)
            | Inr db' \<Rightarrow>
               (case sendRefundNotification api (u_name user) (u_email user) (c_name course) msg of
                  Inl e \<Rightarrow> (db', 500, Message RefundInternalError)
                | Inr x \<Rightarrow> (db', 200, Message RefundRequested))))"
    unfolding requestRefund_def pendingFor_def d
    using assms(2,3)
    by (simp only: assms(1) Let_def prod.case option.case list.case if_False simp_thms)
  then show ?thesis
    by (simp add: ins split: sum.splits)
qed

lemma requestRefund_cases:
  "fst (requestRefund db api now u c m) = db
   \<or> (\<exists>cid msg. c = Some cid \<and> m = Some msg \<and> pendingFor db u cid = []
        \<and> fst (requestRefund db api now u c m) =
            db\<lparr>RefundRequests := RefundRequests db @
                    [\<lparr>rr_id = next_id (map rr_id (RefundRequests db)), rr_user_id = u,
                      rr_course_id = cid, rr_message = msg, rr_request_date = now,
                      rr_status = PENDENTE\<rparr>]\<rparr>)"
  by (auto simp: requestRefund_def Let_def pendingFor_def insertRefundRequest_def
           split: option.splits list.splits sum.splits prod.splits)


lemma demo_purchaseRows: "purchaseRows demoDb 1 1 = [(nodeCourse, anaUser, anaPurchase)]"
  by (simp add: purchaseRows_def demoDb_def anaUser_def nodeCourse_def sqlCourse_def
        anaPurchase_def)


lemma refundStatus_days:
  "d_daysSincePurchase (refundStatus now (p, c)) =
     \<lceil>real_of_int \<bar>now - p_purchase_date p\<bar> / (1000 * 60 * 60 * 24)\<rceil>"
  "d_isRefundEligible (refundStatus now (p, c)) =
     (\<lceil>real_of_int \<bar>now - p_purchase_date p\<bar> / (1000 * 60 * 60 * 24)\<rceil> \<le> 7)"
  by (simp_all only: refundStatus_def Let_def fst_conv snd_conv dashboard_row.simps)

text \<open>
  C2. The day count of a purchase is the ceiling of the absolute elapsed time over
  one day, and the purchase is eligible when the count is at most 7: a purchase made
  one second ago counts 1 day and is eligible; one made 7 days and one second ago
  counts 8 days and is not. Whenever the count of the purchase found exceeds 7, the
  refund-request handler rejects the request and writes nothing: with 403 and the
  count when both fields are present, with 400 otherwise.
\<close>

theorem refund_window:
  "d_daysSincePurchase (refundStatus now (p, c)) =
     \<lceil>real_of_int \<bar>now - p_purchase_date p\<bar> / (1000 * 60 * 60 * 24)\<rceil>
   \<and> d_isRefundEligible (refundStatus now (p, c)) =
       (\<lceil>real_of_int \<bar>now - p_purchase_date p\<bar> / (1000 * 60 * 60 * 24)\<rceil> \<le> 7)
   \<and> (p_purchase_date p = now - 1000 \<longrightarrow>
        d_daysSincePurchase (refundStatus now (p, c)) = 1
        \<and> d_isRefundEligible (refundStatus now (p, c)))
   \<and> (p_purchase_date p = now - (7 * (1000 * 60 * 60 * 24) + 1000) \<longrightarrow>
        d_daysSincePurchase (refundStatus now (p, c)) = 8
        \<and> \<not> d_isRefundEligible (refundStatus now (p, c)))
   \<and> (purchaseRows db u cid = (course, user, p) # rest
        \<and> \<lceil>real_of_int \<bar>now - p_purchase_date p\<bar> / (1000 * 60 * 60 * 24)\<rceil> > 7 \<longrightarrow>
        fst (requestRefund db api now u (Some cid) m) = db
        \<and> fst (snd (requestRefund db api now u (Some cid) m)) \<in> {400, 403}
        \<and> (cid \<noteq> 0 \<and> m = Some msg \<and> msg \<noteq> [] \<longrightarrow>
             requestRefund db api now u (Some cid) m =
               (db, 403, Message (RefundWindowExpired
                  \<lceil>real_of_int \<bar>now - p_purchase_date p\<bar> / (1000 * 60 * 60 * 24)\<rceil>))))"
proof (intro conjI impI)
  let ?d = "\<lceil>real_of_int \<bar>now - p_purchase_date p\<bar> / (1000 * 60 * 60 * 24)\<rceil>"
  show "d_daysSincePurchase (refundStatus now (p, c)) = ?d"
    by (rule refundStatus_days)
  show "d_isRefundEligible (refundStatus now (p, c)) = (?d \<le> 7)"
    by (rule refundStatus_days)
  {
    assume a: "p_purchase_date p = now - 1000"
    have "?d = 1" unfolding ceil_days a by simp
    then show "d_daysSincePurchase (refundStatus now (p, c)) = 1"
      and "d_isRefundEligible (refundStatus now (p, c))"
      by (simp_all only: refundStatus_days)
  }
  {
    assume a: "p_purchase_date p = now - (7 * (1000 * 60 * 60 * 24) + 1000)"
    have "?d = 8" unfolding ceil_days a by simp
    then show "d_daysSincePurchase (refundStatus now (p, c)) = 8"
      and "\<not> d_isRefundEligible (refundStatus now (p, c))"
      by (simp_all only: refundStatus_days)
  }
  {
    assume a: "purchaseRows db u cid = (course, user, p) # rest \<and> ?d > 7"
    have ok: "requestRefund db api now u (Some cid) (Some msg') =
                 (db, 403, Message (RefundWindowExpired ?d))"
      if "cid \<noteq> 0" "msg' \<noteq> []" for msg'
      using requestRefund_found [OF _ that refl, of db u course user p rest api now] a
      by (simp only: if_True)
    have bad: "requestRefund db api now u (Some cid) m = (db, 400, Message RefundFieldsRequired)"
      if "cid = 0 \<or> m = None \<or> m = Some []"
      using that by (auto simp: requestRefund_def split: option.splits)
    show "fst (requestRefund db api now u (Some cid) m) = db"
      using ok bad by (cases m; cases "cid = 0"; cases "the m = []") auto
    show "fst (snd (requestRefund db api now u (Some cid) m)) \<in> {400, 403}"
      using ok bad by (cases m; cases "cid = 0"; cases "the m = []") auto
    {
      assume "cid \<noteq> 0 \<and> m = Some msg \<and> msg \<noteq> []"
      then show "requestRefund db api now u (Some cid) m =
               (db, 403, Message (RefundWindowExpired ?d))"
        using ok by simp
    }
  }
qed

theorem refund_window_witness:
  "purchaseRows demoDb 1 1 = (nodeCourse, anaUser, anaPurchase) # []
   \<and> \<lceil>real_of_int \<bar>1700691200000 - p_purchase_date anaPurchase\<bar> / (1000 * 60 * 60 * 24)\<rceil> > 7
   \<and> requestRefund demoDb None 1700691200000 1 (Some 1) (Some ''late'') =
       (demoDb, 403, Message (RefundWindowExpired 8))
   \<and> d_daysSincePurchase (refundStatus 1700000001000 (anaPurchase, nodeCourse)) = 1"
proof -
  have d: "\<lceil>real_of_int \<bar>1700691200000 - p_purchase_date anaPurchase\<bar> / (1000 * 60 * 60 * 24)\<rceil> = 8"
    unfolding ceil_days by (simp add: anaPurchase_def)
  have e: "p_purchase_date anaPurchase = 1700000001000 - 1000"
    by (simp add: anaPurchase_def)
  show ?thesis
    using demo_purchaseRows d e
      refund_window [where now = 1700691200000 and p = anaPurchase and db = demoDb and u = 1
        and cid = 1 and course = nodeCourse and user = anaUser and rest = "[]" and api = None
        and m = "Some ''late''" and msg = "''late''"]
      refund_window [where now = 1700000001000 and p = anaPurchase and c = nodeCourse]
    by simp
qed

text \<open>
  C7. The rows of the dashboard are the purchases of the user, each annotated by
  \<open>refundStatus\<close>; and for the purchase that the refund-request handler finds, the
  handler rejects with the window-expired reply, carrying the day count of the
  dashboard, exactly when the dashboard marks the purchase as not eligible.
\<close>

theorem same_eligibility:
  "(\<exists>rows. getPurchasedCourses db now u = (200, DashboardBody rows)
       \<and> set rows = refundStatus now `
           {(p, c). p \<in> set (Purchases db) \<and> p_user_id p = u
                    \<and> c \<in> set (Courses db) \<and> c_id c = p_course_id p})
   \<and> (purchaseRows db u cid = (course, user, p) # rest \<and> cid \<noteq> 0 \<and> msg \<noteq> [] \<longrightarrow>
        (\<not> d_isRefundEligible (refundStatus now (p, c)) \<longrightarrow>
           requestRefund db api now u (Some cid) (Some msg) =
             (db, 403, Message (RefundWindowExpired (d_daysSincePurchase (refundStatus now (p, c))))))
        \<and> (d_isRefundEligible (refundStatus now (p, c)) \<longrightarrow>
             fst (snd (requestRefund db api now u (Some cid) (Some msg))) \<noteq> 403))"
proof (intro conjI impI)
  show "\<exists>rows. getPurchasedCourses db now u = (200, DashboardBody rows)
       \<and> set rows = refundStatus now `
           {(p, c). p \<in> set (Purchases db) \<and> p_user_id p = u
                    \<and> c \<in> set (Courses db) \<and> c_id c = p_course_id p}"
    by (auto simp: getPurchasedCourses_def Let_def)
next
  let ?d = "\<lceil>real_of_int \<bar>now - p_purchase_date p\<bar> / (1000 * 60 * 60 * 24)\<rceil>"
  assume a: "purchaseRows db u cid = (course, user, p) # rest \<and> cid \<noteq> 0 \<and> msg \<noteq> []"
  then have found: "requestRefund db api now u (Some cid) (Some msg) =
     (if ?d > 7 then (db, 403, Message (RefundWindowExpired ?d))
      else if pendingFor db u cid \<noteq> [] then (db, 409, Message RefundAlreadyPending)
      else (db\<lparr>RefundRequests := RefundRequests db @
                    [\<lparr>rr_id = next_id (map rr_id (RefundRequests db)), rr_user_id = u,
                      rr_course_id = cid, rr_message = msg, rr_request_date = now,
                      rr_status = PENDENTE\<rparr>]\<rparr>,
            case sendRefundNotification api (u_name user) (u_email user) (c_name course) msg of
              Inl e \<Rightarrow> (500, Message RefundInternalError)
            | Inr x \<Rightarrow> (200, Message RefundRequested)))"
    using requestRefund_found [OF _ _ _ refl, of db u cid course user p rest msg api now] by blast
  {
    assume "\<not> d_isRefundEligible (refundStatus now (p, c))"
    then have "?d > 7" by (simp only: refundStatus_days not_le)
    then show "requestRefund db api now u (Some cid) (Some msg) =
             (db, 403, Message (RefundWindowExpired (d_daysSincePurchase (refundStatus now (p, c)))))"
      using found by (simp only: refundStatus_days if_True)
  }
  {
    assume "d_isRefundEligible (refundStatus now (p, c))"
    then have "\<not> ?d > 7" by (simp only: refundStatus_days not_less)
    then show "fst (snd (requestRefund db api now u (Some cid) (Some msg))) \<noteq> 403"
      using found by (simp only: if_False) (simp split: sum.splits)
  }
qed

theorem same_eligibility_witness:
  "purchaseRows demoDb 1 1 = (nodeCourse, anaUser, anaPurchase) # []
   \<and> \<not> d_isRefundEligible (refundStatus 1700691200000 (anaPurchase, nodeCourse))
   \<and> d_daysSincePurchase (refundStatus 1700691200000 (anaPurchase, nodeCourse)) = 8
   \<and> requestRefund demoDb None 1700691200000 1 (Some 1) (Some ''late'') =
       (demoDb, 403, Message (RefundWindowExpired 8))"
proof -
  have d: "\<lceil>real_of_int \<bar>1700691200000 - p_purchase_date anaPurchase\<bar> / (1000 * 60 * 60 * 24)\<rceil> = 8"
    unfolding ceil_days by (simp add: anaPurchase_def)
  have e: "\<not> d_isRefundEligible (refundStatus 1700691200000 (anaPurchase, nodeCourse))"
    "d_daysSincePurchase (refundStatus 1700691200000 (anaPurchase, nodeCourse)) = 8"
    by (simp_all only: refundStatus_days d)
  show ?thesis
    using demo_purchaseRows e
      same_eligibility [where db = demoDb and now = 1700691200000 and u = 1 and cid = 1
        and course = nodeCourse and user = anaUser and p = anaPurchase and rest = "[]"
        and msg = "''late''" and c = nodeCourse and api = None]
    by simp
qed

section \<open>Refund requests\<close>






text \<open>
  With no API key configured the notification is skipped without an exception: the
  same request is then answered with the success reply, and the row is stored.
\<close>

lemma refund_notification_disabled:
  assumes "purchaseRows db u cid = (course, user, p) # rest" and "cid \<noteq> 0" and "msg \<noteq> []"
      and "\<lceil>real_of_int \<bar>now - p_purchase_date p\<bar> / (1000 * 60 * 60 * 24)\<rceil> \<le> 7"
      and "pendingFor db u cid = []"
  shows "requestRefund db None now u (Some cid) (Some msg) =
           (db\<lparr>RefundRequests := RefundRequests db @
                  [\<lparr>rr_id = next_id (map rr_id (RefundRequests db)), rr_user_id = u,
                    rr_course_id = cid, rr_message = msg, rr_request_date = now,
                    rr_status = PENDENTE\<rparr>]\<rparr>,
            200, Message RefundRequested)"
proof -
  have n: "\<not> \<lceil>real_of_int \<bar>now - p_purchase_date p\<bar> / (1000 * 60 * 60 * 24)\<rceil> > 7"
    using assms(4) by linarith
  have s: "sendRefundNotification None (u_name user) (u_email user) (c_name course) msg = Inr ()"
    by (simp add: sendRefundNotification_def)
  show ?thesis
    using requestRefund_found [OF assms(1-3) refl, of None now] n assms(5)
    by (simp only: if_False s sum.case not_not simp_thms)
qed

section \<open>Purchases are unique\<close>

lemma purchaseCourse_cases:
  "fst (purchaseCourse db now u c) = db
   \<or> (\<exists>cid. c = Some cid
        \<and> \<not> (\<exists>p \<in> set (Purchases db). p_user_id p = u \<and> p_course_id p = cid)
        \<and> u \<in> set (map u_id (Users db)) \<and> cid \<in> set (map c_id (Courses db))
        \<and> fst (purchaseCourse db now u c) =
            db\<lparr>Purchases := Purchases db @
                  [\<lparr>p_id = next_id (map p_id (Purchases db)), p_user_id = u,
                    p_course_id = cid, p_purchase_date = now\<rparr>]\<rparr>)"
  by (auto simp: purchaseCourse_def insertPurchase_def Let_def
           split: option.splits list.splits sum.splits sql_error.splits)

lemma purchaseCourse_consistent:
  assumes "consistent db"
  shows "consistent (fst (purchaseCourse db now u c))"
proof -
  from purchaseCourse_cases [of db now u c]
  show ?thesis
  proof
    assume "fst (purchaseCourse db now u c) = db"
    then show ?thesis using assms by simp
  next
    assume "\<exists>cid. c = Some cid
        \<and> \<not> (\<exists>p \<in> set (Purchases db). p_user_id p = u \<and> p_course_id p = cid)
        \<and> u \<in> set (map u_id (Users db)) \<and> cid \<in> set (map c_id (Courses db))
        \<and> fst (purchaseCourse db now u c) =
            db\<lparr>Purchases := Purchases db @
                  [\<lparr>p_id = next_id (map p_id (Purchases db)), p_user_id = u,
                    p_course_id = cid, p_purchase_date = now\<rparr>]\<rparr>"
    then obtain cid where
      new: "\<not> (\<exists>p \<in> set (Purchases db). p_user_id p = u \<and> p_course_id p = cid)" and
      fk: "u \<in> set (map u_id (Users db))" "cid \<in> set (map c_id (Courses db))" and
      e: "fst (purchaseCourse db now u c) =
            db\<lparr>Purchases := Purchases db @
                  [\<lparr>p_id = next_id (map p_id (Purchases db)), p_user_id = u,
                    p_course_id = cid, p_purchase_date = now\<rparr>]\<rparr>"
      by blast
    have "(u, cid) \<notin> set (map (\<lambda>p. (p_user_id p, p_course_id p)) (Purchases db))"
      using new by auto
    then show ?thesis
      using assms fk unfolding e consistent_def uniquePurchases_def
      by auto
  qed
qed

lemma purchaseCourse_duplicate:
  assumes "consistent db" and "p \<in> set (Purchases db)"
  shows "purchaseCourse db now (p_user_id p) (Some (p_course_id p)) =
           (db, 409, Message AlreadyPurchased)"
proof -
  have c: "p_course_id p \<in> set (map c_id (Courses db))"
    using assms by (auto simp: consistent_def)
  then obtain x where x: "x \<in> set (Courses db)" "c_id x = p_course_id p"
    by auto
  then have nz: "p_course_id p \<noteq> 0"
    using assms(1) by (auto simp: consistent_def)
  have "filter (\<lambda>c. c_id c = p_course_id p) (Courses db) \<noteq> []"
    using x by (auto simp: filter_empty_conv)
  then obtain y ys where f: "filter (\<lambda>c. c_id c = p_course_id p) (Courses db) = y # ys"
    by (cases "filter (\<lambda>c. c_id c = p_course_id p) (Courses db)") auto
  have ins: "insertPurchase db now (p_user_id p) (p_course_id p) = Inl ER_DUP_ENTRY"
    using assms(2) by (auto simp: insertPurchase_def)
  show ?thesis
    by (simp add: purchaseCourse_def nz f ins)
qed

lemma requestRefund_consistent:
  "consistent db \<Longrightarrow> consistent (fst (requestRefund db api now u c m))"
  using requestRefund_cases [of db api now u c m]
  by (auto simp: consistent_def uniquePurchases_def)

lemma createLesson_tables:
  "fst (fst (createLesson upload parse stringify (db, assets) req)) = db
   \<or> (\<exists>l. fst (fst (createLesson upload parse stringify (db, assets) req)) =
           db\<lparr>Lessons := Lessons db @ [l]\<rparr>)"
proof (cases "moduleId req")
  case None
  then show ?thesis by (simp add: createLesson_def)
next
  case mid: (Some mid)
  show ?thesis
  proof (cases "title req")
    case None
    then show ?thesis using mid by (simp add: createLesson_def)
  next
    case ttl: (Some ttl)
    show ?thesis
    proof (cases "dripDays req")
      case None
      then show ?thesis using mid ttl by (simp add: createLesson_def)
    next
      case drip: (Some drip)
      show ?thesis
      proof (cases "orderIndex req")
        case None
        then show ?thesis using mid ttl drip by (simp add: createLesson_def)
      next
        case ord: (Some ord)
        show ?thesis
          using mid ttl drip ord
          by (auto simp: createLesson_def insertLesson_def uploadFile_def Let_def
                split: option.splits sum.splits prod.splits)
      qed
    qed
  qed
qed

lemma createLesson_consistent:
  "consistent db \<Longrightarrow>
     consistent (fst (fst (createLesson upload parse stringify (db, assets) req)))"
  using createLesson_tables [of upload parse stringify db assets req]
  by (auto simp: consistent_def uniquePurchases_def)

lemma consistent_emptyDb: "consistent emptyDb"
  by (simp add: consistent_def uniquePurchases_def emptyDb_def)

lemma demoDb_consistent: "consistent demoDb"
  by (simp add: consistent_def uniquePurchases_def demoDb_def anaUser_def nodeCourse_def
        sqlCourse_def anaPurchase_def)

text \<open>
  C5. In a store that satisfies the constraints of the schema (at most one purchase
  for each (user, course), the foreign keys of purchases, identifiers other than 0),
  every purchase attempt leaves a store that satisfies them, so at most one purchase
  row exists for each pair; and when a purchase of course \<open>c\<close> by user \<open>u\<close> exists, an
  attempt of \<open>u\<close> to purchase \<open>c\<close> is answered with the conflict 409 and the store is
  unchanged. The empty store satisfies the constraints (\<open>consistent_emptyDb\<close>), and the
  other two handlers that write keep them (\<open>requestRefund_consistent\<close>,
  \<open>createLesson_consistent\<close>).
\<close>

theorem purchase_once:
  assumes "consistent db"
  shows "consistent (fst (purchaseCourse db now v cv))
       \<and> uniquePurchases (fst (purchaseCourse db now v cv))
       \<and> ((\<exists>p \<in> set (Purchases db). p_user_id p = u \<and> p_course_id p = c) \<longrightarrow>
            purchaseCourse db now u (Some c) = (db, 409, Message AlreadyPurchased))"
proof (intro conjI impI)
  show c: "consistent (fst (purchaseCourse db now v cv))"
    using assms by (rule purchaseCourse_consistent)
  then show "uniquePurchases (fst (purchaseCourse db now v cv))"
    by (simp add: consistent_def)
  assume "\<exists>p \<in> set (Purchases db). p_user_id p = u \<and> p_course_id p = c"
  then obtain p where "p \<in> set (Purchases db)" "p_user_id p = u" "p_course_id p = c"
    by blast
  then show "purchaseCourse db now u (Some c) = (db, 409, Message AlreadyPurchased)"
    using purchaseCourse_duplicate [OF assms, of p now] by simp
qed

theorem purchase_once_witness:
  "consistent demoDb
   \<and> (\<exists>p \<in> set (Purchases demoDb). p_user_id p = 1 \<and> p_course_id p = 1)
   \<and> purchaseCourse demoDb 1700000500000 1 (Some 1) = (demoDb, 409, Message AlreadyPurchased)
   \<and> uniquePurchases (fst (purchaseCourse demoDb 1700000500000 1 (Some 2)))"
proof -
  have h: "\<exists>p \<in> set (Purchases demoDb). p_user_id p = 1 \<and> p_course_id p = 1"
    by (simp add: demoDb_def anaPurchase_def)
  show ?thesis
    using demoDb_consistent h
      purchase_once [OF demoDb_consistent, of 1700000500000 1 "Some 2" 1 1]
      purchase_once [OF demoDb_consistent, of 1700000500000 1 "Some 1" 1 1]
    by blast
qed

section \<open>The bearer token\<close>

lemma split_nonempty: "split c s \<noteq> []"
  by (induction s) (auto split: list.splits)

lemma hd_split: "hd (split c s) = takeWhile (\<lambda>x. x \<noteq> c) s"
  by (induction s) (auto split: list.splits simp: split_nonempty)

lemma length_split: "1 < length (split c s) \<longleftrightarrow> c \<in> set s"
proof (induction s)
  case Nil
  then show ?case by simp
next
  case (Cons x xs)
  then show ?case
    using split_nonempty [of c xs]
    by (cases "split c xs") (auto split: list.splits)
qed

lemma second_split:
  "c \<in> set s \<Longrightarrow> split c s ! 1 = takeWhile (\<lambda>x. x \<noteq> c) (tl (dropWhile (\<lambda>x. x \<noteq> c) s))"
proof (induction s)
  case Nil
  then show ?case by simp
next
  case (Cons x xs)
  show ?case
  proof (cases "x = c")
    case True
    then show ?thesis
      using split_nonempty [of c xs] hd_split [of c xs]
      by (cases "split c xs") auto
  next
    case False
    then have "c \<in> set xs" using Cons.prems by simp
    then show ?thesis
      using False Cons.IH split_nonempty [of c xs]
      by (cases "split c xs") auto
  qed
qed

lemma bearerToken_eq:
  "bearerToken authorization =
     (case authorization of
        None \<Rightarrow> None
      | Some h \<Rightarrow>
          if CHR '' '' \<in> set h
          then Some (takeWhile (\<lambda>x. x \<noteq> CHR '' '') (tl (dropWhile (\<lambda>x. x \<noteq> CHR '' '') h)))
          else None)"
proof (cases authorization)
  case None
  then show ?thesis by (simp add: bearerToken_def)
next
  case (Some h)
  then show ?thesis
    using length_split [of "CHR '' ''" h] second_split [of "CHR '' ''" h]
    by (auto simp: bearerToken_def Let_def)
qed

text \<open>
  C9, as stated, fails on a header with two spaces: of \<^verbatim>\<open>Bearer abc def\<close> the text after
  the first space is \<^verbatim>\<open>abc def\<close>, and verification is called with \<^verbatim>\<open>abc\<close>.
\<close>

theorem bearer_token_counterexample:
  "fst (authMiddleware rejectToken (Some ''Bearer abc def'')) = [''abc'']
   \<and> ''abc'' \<noteq> ''abc def''"
  by (simp add: authMiddleware_def bearerToken_def rejectToken_def Let_def)

text \<open>
  C9, amended. When the \<^verbatim>\<open>Authorization\<close> header is absent or contains no space, the
  middleware answers with the missing-token rejection 401 and never calls the
  verification; verification is called at most once, and only with the text between
  the first space of the header and the next space (or the end of the header), and
  only when that text is not empty.
\<close>

theorem bearer_token:
  "((authorization = None \<or> (\<exists>h. authorization = Some h \<and> CHR '' '' \<notin> set h)) \<longrightarrow>
      authMiddleware verify authorization = ([], Reject 401 TokenMissing))
   \<and> (\<forall>token \<in> set (fst (authMiddleware verify authorization)).
        token \<noteq> [] \<and>
        (\<exists>h. authorization = Some h \<and> CHR '' '' \<in> set h \<and>
           token = takeWhile (\<lambda>x. x \<noteq> CHR '' '') (tl (dropWhile (\<lambda>x. x \<noteq> CHR '' '') h))))
   \<and> length (fst (authMiddleware verify authorization)) \<le> 1"
  by (auto simp: authMiddleware_def bearerToken_eq split: option.splits if_splits)

theorem bearer_token_witness:
  "CHR '' '' \<notin> set ''abc''
   \<and> authMiddleware rejectToken (Some ''abc'') = ([], Reject 401 TokenMissing)
   \<and> authMiddleware rejectToken None = ([], Reject 401 TokenMissing)
   \<and> length (fst (authMiddleware rejectToken (Some ''Bearer abc def''))) \<le> 1"
proof -
  have h: "CHR '' '' \<notin> set ''abc''" by simp
  show ?thesis
    using h bearer_token [of "Some ''abc''" rejectToken] bearer_token [of None rejectToken]
      bearer_token [of "Some ''Bearer abc def''" rejectToken]
    by simp
qed

section \<open>Links of a lesson\<close>

lemma isReleased_setDate:
  "isReleased now (setDate tza P (getDate tza P + d)) = isReleased now (TimeClip (P + d * msPerDay))"
  by (simp add: setDate_adds_days)











end
